theory Spec2Isabelle
  imports Complex_Main "HOL-Library.Log_Nat"
begin

section \<open>Element kernels of the beam FEM solver (finite\_element.py)\<close>

text \<open>
  The module defines one class, \<open>FiniteElement\<close>, whose only attribute is the string
  \<open>problem_type\<close>. Every method branches on that string and either evaluates a closed
  formula or raises \<open>Exception('Invalid choice of element type')\<close>.

  Modelling conventions.
  \<^item> The scalar arguments are the docstrings' ``double'': Python floats. In the methods
    that build arrays their values are idealised as \<open>real\<close>: each method evaluates the
    expression the source writes, without the rounding of the single operations. What
    decides whether a call returns is kept: Python's float division raises
    \<open>ZeroDivisionError\<close> on a zero divisor, and \<open>**\<close> raises \<open>OverflowError\<close> when the power
    leaves the range of binary64 and gives \<open>0.0\<close> when it underflows.
  \<^item> \<open>get_gauss_quadrature_index\<close> uses only \<open>+\<close>, \<open>-\<close> and \<open>*\<close> on Python floats, whose
    results IEEE 754 fixes. It is modelled in binary64 arithmetic (round to nearest, ties
    to even), since what is said of it is about exact results.
  \<^item> Element indices are Python integers (\<open>int\<close>, unbounded). The index table of the
    beam element is a numpy array of dtype \<open>np.int\<close>, numpy's alias of the builtin \<open>int\<close>
    (up to numpy 1.23): a C long, taken here as the 64-bit signed integer of Linux and
    macOS. Storing a Python integer outside that range raises \<open>OverflowError\<close>.
  \<^item> A raise is a value \<open>Inl err\<close> of the result type; a return is \<open>Inr v\<close>.
\<close>

subsection \<open>Errors and values\<close>

datatype error =
    Exception string
  | ZeroDivisionError
  | IndexError
  | OverflowError
  | ValueError

text \<open>The one exception the source raises itself; the specification calls it
  InvalidElementType.\<close>

definition InvalidElementType :: error where
  "InvalidElementType = Exception ''Invalid choice of element type''"

text \<open>A numpy array of floats, one- or two-dimensional (a list of rows).\<close>

datatype ndarray = Arr1 "real list" | Arr2 "real list list"

text \<open>What \<open>get_dof_index\<close> returns: a Python list of integers, or a two-dimensional
  integer array.\<close>

datatype dof_index = PyList "int list" | IntArr2 "int list list"

record FiniteElement =
  problem_type :: string

text \<open>\<open>__init__(self, problem_type='Elasticity')\<close>: stores the tag, unchecked.\<close>

definition init :: "string \<Rightarrow> FiniteElement" where
  "init pt = \<lparr>problem_type = pt\<rparr>"

definition init_default :: FiniteElement where
  "init_default = init ''Elasticity''"

subsection \<open>Python and numpy primitives\<close>

text \<open>\<open>x / y\<close> on Python floats.\<close>

definition truediv :: "real \<Rightarrow> real \<Rightarrow> error + real" where
  "truediv x y = (if y = 0 then Inl ZeroDivisionError else Inr (x / y))"

text \<open>\<open>xs[i]\<close> on a sequence: a negative index counts from the end, an index outside
  \<open>-len \<le> i < len\<close> raises \<open>IndexError\<close>.\<close>

definition getitem :: "'a list \<Rightarrow> int \<Rightarrow> error + 'a" where
  "getitem xs i =
     (if 0 \<le> i \<and> i < int (length xs) then Inr (xs ! nat i)
      else if i < 0 \<and> - int (length xs) \<le> i then Inr (xs ! nat (int (length xs) + i))
      else Inl IndexError)"

text \<open>Scalar times array, elementwise.\<close>

definition scale1 :: "real \<Rightarrow> real list \<Rightarrow> real list" where
  "scale1 k xs = map (\<lambda>x. k * x) xs"

definition scale2 :: "real \<Rightarrow> real list list \<Rightarrow> real list list" where
  "scale2 k rows = map (scale1 k) rows"

text \<open>\<open>a.dot(b)\<close> for two one-dimensional arrays: the inner product, \<open>ValueError\<close> when
  the lengths differ.\<close>

definition inner_product :: "real list \<Rightarrow> real list \<Rightarrow> real" where
  "inner_product xs ys = sum_list (map (\<lambda>(x, y). x * y) (zip xs ys))"

definition dot1 :: "real list \<Rightarrow> real list \<Rightarrow> error + real" where
  "dot1 xs ys = (if length xs = length ys then Inr (inner_product xs ys) else Inl ValueError)"

text \<open>\<open>A.dot(B)\<close> for two-dimensional arrays of matching shapes: rows of \<open>A\<close> against
  columns of \<open>B\<close>.\<close>

definition column :: "real list list \<Rightarrow> nat \<Rightarrow> real list" where
  "column B j = map (\<lambda>row. row ! j) B"

definition dot2 :: "real list list \<Rightarrow> real list list \<Rightarrow> real list list" where
  "dot2 A B = map (\<lambda>row. map (\<lambda>j. inner_product row (column B j)) [0..<length (hd B)]) A"

text \<open>The range of dtype \<open>np.int\<close> (C long, 64 bits).\<close>

definition int64_ok :: "int \<Rightarrow> bool" where
  "int64_ok v = (- (2 ^ 63) \<le> v \<and> v < 2 ^ 63)"

text \<open>\<open>arr[r, c] = v\<close> on a two-dimensional integer array, in place.\<close>

definition setitem :: "int list list \<Rightarrow> nat \<Rightarrow> nat \<Rightarrow> int \<Rightarrow> error + int list list" where
  "setitem arr r c v =
     (if r < length arr \<and> c < length (arr ! r) then
        (if int64_ok v then Inr (arr[r := (arr ! r)[c := v]]) else Inl OverflowError)
      else Inl IndexError)"

text \<open>\<open>for i in is: body\<close>, the body updating a state and possibly raising.\<close>

fun for_each :: "'i list \<Rightarrow> ('i \<Rightarrow> 's \<Rightarrow> error + 's) \<Rightarrow> 's \<Rightarrow> error + 's" where
  "for_each [] body s = Inr s"
| "for_each (i # is) body s =
     (case body i s of Inl err \<Rightarrow> Inl err | Inr s' \<Rightarrow> for_each is body s')"

text \<open>\<open>range(n)\<close>.\<close>

definition range_py :: "nat \<Rightarrow> nat list" where
  "range_py n = [0..<n]"

subsection \<open>Binary64 arithmetic\<close>

text \<open>
  A Python float is a finite binary64 number, an infinity or a NaN. A finite number is
  \<open>m * 2^q\<close> with an integer \<open>m\<close>, \<open>\<bar>m\<bar> < 2^53\<close> and \<open>-1074 \<le> q \<le> 971\<close>; it is kept as its
  real value. The sign of zero is not kept: \<open>+\<close>, \<open>-\<close> and \<open>*\<close> give equal values on
  \<open>0.0\<close> and \<open>-0.0\<close>.
\<close>

datatype float64 = Finite real | PosInf | NegInf | NaN

text \<open>The nearest integer, a tie going to the even one.\<close>

definition round_half_even :: "real \<Rightarrow> int" where
  "round_half_even x =
     (let n = \<lfloor>x\<rfloor>; d = x - of_int n
      in if d < 1 / 2 then n else if 1 / 2 < d then n + 1 else if even n then n else n + 1)"

text \<open>\<open>2^q\<close> for an integer \<open>q\<close>.\<close>

definition pow2 :: "int \<Rightarrow> real" where
  "pow2 q = (if 0 \<le> q then 2 ^ nat q else 1 / 2 ^ nat (- q))"

text \<open>The exponent \<open>q\<close> of the spacing \<open>2^q\<close> of binary64 numbers around \<open>x\<close>: for
  \<open>2^e \<le> \<bar>x\<bar> < 2^(e+1)\<close> it is \<open>e - 52\<close>, and \<open>-1074\<close> below \<open>2^-1022\<close> (subnormal
  numbers). The bit length of \<open>\<lfloor>\<bar>x\<bar> * 2^1074\<rfloor>\<close> is \<open>e + 1075\<close>.\<close>

definition ulp_exponent :: "real \<Rightarrow> int" where
  "ulp_exponent x = max (bitlen \<lfloor>\<bar>x\<bar> * 2 ^ 1074\<rfloor> - 1075) (- 1022) - 52"

text \<open>Rounding of an exact result to binary64: to the nearest multiple of the spacing,
  ties to even, and to an infinity from \<open>2^1024\<close> on.\<close>

definition round64 :: "real \<Rightarrow> float64" where
  "round64 x =
     (let q = ulp_exponent x; y = of_int (round_half_even (x / pow2 q)) * pow2 q
      in if 2 ^ 1024 \<le> y then PosInf else if y \<le> - (2 ^ 1024) then NegInf else Finite y)"

fun fneg :: "float64 \<Rightarrow> float64" where
  "fneg (Finite x) = Finite (- x)"
| "fneg PosInf = NegInf"
| "fneg NegInf = PosInf"
| "fneg NaN = NaN"

text \<open>\<open>x + y\<close>: infinities of opposite sign give NaN.\<close>

fun fadd :: "float64 \<Rightarrow> float64 \<Rightarrow> float64" where
  "fadd (Finite x) (Finite y) = round64 (x + y)"
| "fadd NaN y = NaN"
| "fadd x NaN = NaN"
| "fadd PosInf NegInf = NaN"
| "fadd NegInf PosInf = NaN"
| "fadd (Finite x) y = y"
| "fadd x y = x"

definition fsub :: "float64 \<Rightarrow> float64 \<Rightarrow> float64" where
  "fsub x y = fadd x (fneg y)"

text \<open>\<open>x * y\<close>: zero times an infinity gives NaN, otherwise an infinity keeps or flips its
  sign.\<close>

fun fmul :: "float64 \<Rightarrow> float64 \<Rightarrow> float64" where
  "fmul (Finite x) (Finite y) = round64 (x * y)"
| "fmul NaN y = NaN"
| "fmul x NaN = NaN"
| "fmul (Finite x) y = (if x = 0 then NaN else if 0 < x then y else fneg y)"
| "fmul x (Finite y) = (if y = 0 then NaN else if 0 < y then x else fneg x)"
| "fmul PosInf y = y"
| "fmul NegInf y = fneg y"

text \<open>A real that is a finite binary64 number: rounding leaves it as it is.\<close>

definition is_double :: "real \<Rightarrow> bool" where
  "is_double x = (round64 x = Finite x)"

text \<open>The exact results that round to an infinity are those of magnitude at least
  \<open>2^1024 - 2^970\<close>, half a spacing above the largest binary64 number; those that round to
  zero are of magnitude at most \<open>2^-1075\<close>, half the smallest binary64 number.\<close>

definition overflow_bound :: real where
  "overflow_bound = 2 ^ 1024 - 2 ^ 970"

definition underflow_bound :: real where
  "underflow_bound = 1 / 2 ^ 1075"

text \<open>\<open>x ** n\<close> on a Python float with an integer exponent \<open>n \<ge> 0\<close>: the C function
  \<open>pow\<close>, taken as correctly rounded, and \<open>OverflowError\<close> when its result is an
  infinity; a result that underflows is \<open>0.0\<close>. In between the power is taken as
  exact.\<close>

definition float_pow :: "real \<Rightarrow> nat \<Rightarrow> error + real" where
  "float_pow x n =
     (if overflow_bound \<le> \<bar>x ^ n\<bar> then Inl OverflowError
      else if \<bar>x ^ n\<bar> \<le> underflow_bound then Inr 0
      else Inr (x ^ n))"

subsection \<open>The methods of FiniteElement\<close>

text \<open>In the beam branch Python evaluates \<open>EIe/(le**3)\<close> first, then the entries of the
  array, with \<open>le**2\<close> in four of them.\<close>

definition get_Ke :: "FiniteElement \<Rightarrow> real \<Rightarrow> real \<Rightarrow> real \<Rightarrow> real \<Rightarrow> error + ndarray" where
  "get_Ke self Ae Ee le EIe =
     (if problem_type self = ''Elasticity'' then
        (case truediv (Ae * Ee) le of
           Inl err \<Rightarrow> Inl err
         | Inr k \<Rightarrow> Inr (Arr2 (scale2 k [[1, - 1], [- 1, 1]])))
      else if problem_type self = ''EB_beam'' then
        (case float_pow le 3 of
           Inl err \<Rightarrow> Inl err
         | Inr cube \<Rightarrow>
             (case truediv EIe cube of
                Inl err \<Rightarrow> Inl err
              | Inr k \<Rightarrow>
                  (case float_pow le 2 of
                     Inl err \<Rightarrow> Inl err
                   | Inr sq \<Rightarrow>
                       Inr (Arr1 (scale1 k
                         [12, 6 * le, - 12, 6 * le,
                          6 * le, 4 * sq, - 6 * le, 2 * sq,
                          - 12, - 6 * le, 12, - 6 * le,
                          6 * le, 2 * sq, - 6 * le, 4 * sq])))))
      else Inl InvalidElementType)"

definition get_fe_omega :: "FiniteElement \<Rightarrow> real \<Rightarrow> real \<Rightarrow> real \<Rightarrow> real \<Rightarrow> error + ndarray" where
  "get_fe_omega self le b1 b2 fe =
     (if problem_type self = ''Elasticity'' then
        Inr (Arr2 (scale2 (le / 6) (dot2 [[2, 1], [1, 2]] [[b1], [b2]])))
      else if problem_type self = ''EB_beam'' then
        Inr (Arr1 (scale1 (fe * le / 2) [1, le / 6, 1, - le / 6]))
      else Inl InvalidElementType)"

definition get_dynamic_fe_omega ::
    "FiniteElement \<Rightarrow> real \<Rightarrow> real \<Rightarrow> real \<Rightarrow> real list \<Rightarrow> int \<Rightarrow> error + ndarray" where
  "get_dynamic_fe_omega self le b1 b2 fe node =
     (if problem_type self = ''EB_beam'' then
        (case getitem fe node of
           Inl err \<Rightarrow> Inl err
         | Inr f \<Rightarrow> Inr (Arr1 (scale1 (f * le / 2) [1, le / 6, 1, - le / 6])))
      else Inl InvalidElementType)"

text \<open>The two loop nests of \<open>get_dof_index\<close> (the array \<open>ey\<close> of the source is never
  used and is left out): both run \<open>ii\<close> and \<open>jj\<close> over \<open>range(4)\<close>
  and store at column \<open>ii*4+jj\<close>; the first fills row 0 with \<open>e*2+ii\<close>, the second row 1
  with \<open>e*2+jj\<close>.\<close>

definition fill_row0 :: "int \<Rightarrow> int list list \<Rightarrow> error + int list list" where
  "fill_row0 e exy =
     for_each (range_py 4) (\<lambda>ii. for_each (range_py 4)
       (\<lambda>jj arr. setitem arr 0 (ii * 4 + jj) (e * 2 + int ii))) exy"

definition fill_row1 :: "int \<Rightarrow> int list list \<Rightarrow> error + int list list" where
  "fill_row1 e exy =
     for_each (range_py 4) (\<lambda>ii. for_each (range_py 4)
       (\<lambda>jj arr. setitem arr 1 (ii * 4 + jj) (e * 2 + int jj))) exy"

definition get_dof_index :: "FiniteElement \<Rightarrow> int \<Rightarrow> error + dof_index" where
  "get_dof_index self e =
     (if problem_type self = ''Elasticity'' then Inr (PyList [e, e + 1])
      else if problem_type self = ''EB_beam'' then
        (case fill_row0 e (replicate 2 (replicate 16 0)) of
           Inl err \<Rightarrow> Inl err
         | Inr exy \<Rightarrow>
             (case fill_row1 e exy of
                Inl err \<Rightarrow> Inl err
              | Inr exy' \<Rightarrow> Inr (IntArr2 exy')))
      else Inl InvalidElementType)"

definition get_strain_e :: "FiniteElement \<Rightarrow> real \<Rightarrow> real list \<Rightarrow> error + real" where
  "get_strain_e self le de =
     (if problem_type self = ''Elasticity'' then
        (case truediv 1 le of
           Inl err \<Rightarrow> Inl err
         | Inr k \<Rightarrow>
             (case dot1 [- 1, 1] de of
                Inl err \<Rightarrow> Inl err
              | Inr s \<Rightarrow> Inr (k * s)))
      else Inl InvalidElementType)"

text \<open>\<open>0.5*(a+b)+0.5*(b-a)*f\<close> as Python evaluates it on floats: every operation rounds,
  and \<open>0.5*(b-a)*f\<close> is \<open>(0.5*(b-a))*f\<close>.\<close>

definition get_gauss_quadrature_index ::
    "FiniteElement \<Rightarrow> float64 \<Rightarrow> float64 \<Rightarrow> float64 \<Rightarrow> error + float64" where
  "get_gauss_quadrature_index self f a b =
     Inr (fadd (fmul (Finite 0.5) (fadd a b)) (fmul (fmul (Finite 0.5) (fsub b a)) f))"

section \<open>Properties\<close>

subsection \<open>Evaluation lemmas\<close>

lemma problem_type_init [simp]: "problem_type (init pt) = pt"
  by (simp add: init_def)

lemma range_py_4: "range_py 4 = [0, 1, 2, 3]"
  by (simp add: range_py_def upt_rec)

lemma scale1_simps [simp]:
  "scale1 k [] = []"
  "scale1 k (x # xs) = k * x # scale1 k xs"
  by (simp_all add: scale1_def)

lemma scale2_simps [simp]:
  "scale2 k [] = []"
  "scale2 k (r # rs) = scale1 k r # scale2 k rs"
  by (simp_all add: scale2_def)

lemma dot2_2x2_2x1:
  "dot2 [[a, b], [c, d]] [[x], [y]] = [[a * x + b * y], [c * x + d * y]]"
  by (simp add: dot2_def inner_product_def column_def upt_rec)

lemma dot1_pair: "dot1 [a, b] [x, y] = Inr (a * x + b * y)"
  by (simp add: dot1_def inner_product_def)

lemma InvalidElementType_distinct [simp]:
  "InvalidElementType \<noteq> ZeroDivisionError"
  "InvalidElementType \<noteq> IndexError"
  "InvalidElementType \<noteq> OverflowError"
  "InvalidElementType \<noteq> ValueError"
  "ZeroDivisionError \<noteq> InvalidElementType"
  "IndexError \<noteq> InvalidElementType"
  "OverflowError \<noteq> InvalidElementType"
  "ValueError \<noteq> InvalidElementType"
  by (simp_all add: InvalidElementType_def)

lemma nat_less_4_cases: "(n::nat) < 4 \<Longrightarrow> n = 0 \<or> n = 1 \<or> n = 2 \<or> n = 3"
  by arith

subsection \<open>The index table of the beam element, store by store\<close>

lemma zeros_2_16:
  "replicate 2 (replicate 16 (0::int)) =
     [[0, 0, 0, 0, 0, 0, 0, 0, 0, 0, 0, 0, 0, 0, 0, 0],
      [0, 0, 0, 0, 0, 0, 0, 0, 0, 0, 0, 0, 0, 0, 0, 0]]"
  by (simp add: numeral_eq_Suc)

lemma int64_ok_offsets:
  assumes "- (2 ^ 62) \<le> e" "e \<le> 2 ^ 62 - 2"
  shows "int64_ok (e * 2)" "int64_ok (e * 2 + 1)" "int64_ok (e * 2 + 2)" "int64_ok (e * 2 + 3)"
  using assms by (simp_all add: int64_ok_def)

lemma fill_row0_in_range:
  assumes "- (2 ^ 62) \<le> e" "e \<le> 2 ^ 62 - 2"
  shows "fill_row0 e [[a0, a1, a2, a3, a4, a5, a6, a7, a8, a9, a10, a11, a12, a13, a14, a15], r1] =
     Inr [[e * 2, e * 2, e * 2, e * 2,
           e * 2 + 1, e * 2 + 1, e * 2 + 1, e * 2 + 1,
           e * 2 + 2, e * 2 + 2, e * 2 + 2, e * 2 + 2,
           e * 2 + 3, e * 2 + 3, e * 2 + 3, e * 2 + 3], r1]"
  using int64_ok_offsets [OF assms]
  by (simp add: fill_row0_def range_py_4 setitem_def)

lemma fill_row1_in_range:
  assumes "- (2 ^ 62) \<le> e" "e \<le> 2 ^ 62 - 2"
  shows "fill_row1 e [r0, [a0, a1, a2, a3, a4, a5, a6, a7, a8, a9, a10, a11, a12, a13, a14, a15]] =
     Inr [r0, [e * 2, e * 2 + 1, e * 2 + 2, e * 2 + 3,
               e * 2, e * 2 + 1, e * 2 + 2, e * 2 + 3,
               e * 2, e * 2 + 1, e * 2 + 2, e * 2 + 3,
               e * 2, e * 2 + 1, e * 2 + 2, e * 2 + 3]]"
  using int64_ok_offsets [OF assms]
  by (simp add: fill_row1_def range_py_4 setitem_def)

lemma fill_row0_above_range:
  assumes "2 ^ 62 - 2 < e"
  shows "fill_row0 e [[a0, a1, a2, a3, a4, a5, a6, a7, a8, a9, a10, a11, a12, a13, a14, a15], r1] =
     Inl OverflowError"
proof -
  have "\<not> int64_ok (e * 2 + 3)"
    using assms by (simp add: int64_ok_def)
  then show ?thesis
    by (simp add: fill_row0_def range_py_4 setitem_def split: sum.splits)
qed

lemma fill_row0_below_range:
  assumes "e < - (2 ^ 62)"
  shows "fill_row0 e [[a0, a1, a2, a3, a4, a5, a6, a7, a8, a9, a10, a11, a12, a13, a14, a15], r1] =
     Inl OverflowError"
proof -
  have "\<not> int64_ok (e * 2)"
    using assms by (simp add: int64_ok_def)
  then show ?thesis
    by (simp add: fill_row0_def range_py_4 setitem_def)
qed

lemma get_dof_index_EB_beam_in_range:
  assumes "- (2 ^ 62) \<le> e" "e \<le> 2 ^ 62 - 2"
  shows "get_dof_index (init ''EB_beam'') e = Inr (IntArr2
     [[e * 2, e * 2, e * 2, e * 2,
       e * 2 + 1, e * 2 + 1, e * 2 + 1, e * 2 + 1,
       e * 2 + 2, e * 2 + 2, e * 2 + 2, e * 2 + 2,
       e * 2 + 3, e * 2 + 3, e * 2 + 3, e * 2 + 3],
      [e * 2, e * 2 + 1, e * 2 + 2, e * 2 + 3,
       e * 2, e * 2 + 1, e * 2 + 2, e * 2 + 3,
       e * 2, e * 2 + 1, e * 2 + 2, e * 2 + 3,
       e * 2, e * 2 + 1, e * 2 + 2, e * 2 + 3]])"
  by (simp add: get_dof_index_def zeros_2_16
      fill_row0_in_range [OF assms] fill_row1_in_range [OF assms])

lemma get_dof_index_EB_beam_out_of_range:
  assumes "e < - (2 ^ 62) \<or> 2 ^ 62 - 2 < e"
  shows "get_dof_index (init ''EB_beam'') e = Inl OverflowError"
  using assms
  by (auto simp: get_dof_index_def zeros_2_16 fill_row0_above_range fill_row0_below_range)

subsection \<open>Rounding to binary64, evaluated\<close>

lemma bitlen_eqI:
  assumes "2 ^ k \<le> n" "n < 2 ^ Suc k"
  shows "bitlen n = int k + 1"
proof -
  have "bitlen n \<le> int k + 1"
    using assms(2) by (simp add: bitlen_le_iff_power nat_add_distrib)
  moreover have "int k + 1 \<le> bitlen n"
    using assms(1) by (simp add: bitlen_ge_iff_power nat_add_distrib)
  ultimately show ?thesis by simp
qed

lemma ulp_exponent_scaled:
  assumes "2 ^ k \<le> \<bar>x\<bar> * 2 ^ 1022" "\<bar>x\<bar> * 2 ^ 1022 < 2 ^ Suc k"
  shows "ulp_exponent x = int k - 1074"
proof -
  let ?n = "\<lfloor>\<bar>x\<bar> * 2 ^ 1074\<rfloor>"
  have eq: "\<bar>x\<bar> * 2 ^ 1074 = (\<bar>x\<bar> * 2 ^ 1022) * 2 ^ 52"
    by simp
  have "(2::real) ^ (k + 52) \<le> \<bar>x\<bar> * 2 ^ 1074"
    unfolding eq power_add using assms(1) by (intro mult_right_mono) simp_all
  then have "of_int (2 ^ (k + 52)) \<le> \<bar>x\<bar> * 2 ^ 1074"
    by simp
  then have lo: "2 ^ (k + 52) \<le> ?n"
    by (subst le_floor_iff)
  have "\<bar>x\<bar> * 2 ^ 1074 < (2::real) ^ Suc (k + 52)"
    using assms(2) unfolding eq by (simp add: power_add)
  then have "\<bar>x\<bar> * 2 ^ 1074 < of_int (2 ^ Suc (k + 52))"
    by simp
  then have hi: "?n < 2 ^ Suc (k + 52)"
    by (subst floor_less_iff)
  have "bitlen ?n = int (k + 52) + 1"
    by (rule bitlen_eqI [OF lo hi])
  then show ?thesis
    by (simp add: ulp_exponent_def)
qed

lemma ulp_exponent_subnormal:
  assumes "\<bar>x\<bar> * 2 ^ 1022 < 1"
  shows "ulp_exponent x = - 1074"
proof -
  let ?n = "\<lfloor>\<bar>x\<bar> * 2 ^ 1074\<rfloor>"
  have eq: "\<bar>x\<bar> * 2 ^ 1074 = (\<bar>x\<bar> * 2 ^ 1022) * 2 ^ 52"
    by simp
  have "\<bar>x\<bar> * 2 ^ 1074 < of_int (2 ^ 52)"
    using assms unfolding eq by simp
  then have "?n < 2 ^ 52"
    by (subst floor_less_iff)
  then have "bitlen ?n \<le> 52"
    by (simp add: bitlen_le_iff_power)
  then show ?thesis
    by (simp add: ulp_exponent_def)
qed

lemma pow2_scale:
  assumes "- int c \<le> e"
  shows "pow2 e * 2 ^ c = 2 ^ nat (e + int c)"
proof (cases "0 \<le> e")
  case True
  then show ?thesis
    by (simp add: pow2_def nat_add_distrib power_add)
next
  case False
  with assms have le: "nat (- e) \<le> c"
    by simp
  have "nat (e + int c) = c - nat (- e)"
    using False assms by simp
  then show ?thesis
    using False le by (simp add: pow2_def power_diff)
qed

text \<open>In the binade \<open>2^e \<le> \<bar>x\<bar> < 2^(e+1)\<close> of a normal number the spacing is \<open>2^(e-52)\<close>.\<close>

lemma ulp_exponent_binade:
  assumes "- 1022 \<le> e" "pow2 e \<le> \<bar>x\<bar>" "\<bar>x\<bar> < 2 * pow2 e"
  shows "ulp_exponent x = e - 52"
proof -
  define k where "k = nat (e + 1022)"
  have sc: "pow2 e * 2 ^ 1022 = 2 ^ k"
    using pow2_scale [of 1022 e] assms(1) by (simp add: k_def)
  have "pow2 e * 2 ^ 1022 \<le> \<bar>x\<bar> * 2 ^ 1022"
    using assms(2) by (intro mult_right_mono) simp_all
  then have lo: "2 ^ k \<le> \<bar>x\<bar> * 2 ^ 1022"
    by (simp only: sc)
  have "\<bar>x\<bar> * 2 ^ 1022 < (2 * pow2 e) * 2 ^ 1022"
    using assms(3) by (intro mult_strict_right_mono) simp_all
  also have "\<dots> = 2 * (pow2 e * 2 ^ 1022)"
    by (simp only: mult.assoc)
  finally have hi: "\<bar>x\<bar> * 2 ^ 1022 < 2 ^ Suc k"
    by (simp only: sc power_Suc)
  have "ulp_exponent x = int k - 1074"
    by (rule ulp_exponent_scaled [OF lo hi])
  then show ?thesis
    using assms(1) by (simp add: k_def)
qed

lemma round_half_even_near:
  assumes "\<bar>x - of_int m\<bar> < 1 / 2"
  shows "round_half_even x = m"
proof (cases "of_int m \<le> x")
  case True
  with assms have "\<lfloor>x\<rfloor> = m"
    by (intro floor_unique) auto
  then show ?thesis
    using assms True by (simp add: round_half_even_def Let_def)
next
  case False
  with assms have "\<lfloor>x\<rfloor> = m - 1"
    by (intro floor_unique) auto
  then show ?thesis
    using assms False by (simp add: round_half_even_def Let_def)
qed

text \<open>A result closer than half a spacing to \<open>m * 2^q\<close> rounds to it.\<close>

lemma round64_near:
  assumes "ulp_exponent x = q" "\<bar>x / pow2 q - of_int m\<bar> < 1 / 2"
    and "\<bar>of_int m * pow2 q\<bar> < 2 ^ 1024"
  shows "round64 x = Finite (of_int m * pow2 q)"
proof -
  have "round_half_even (x / pow2 q) = m"
    by (rule round_half_even_near [OF assms(2)])
  then show ?thesis
    using assms(1,3) by (simp add: round64_def Let_def abs_less_iff not_le)
qed

text \<open>A multiple of its own spacing, below \<open>2^1024\<close>, is a binary64 number: rounding
  returns it.\<close>

lemma round64_exact:
  assumes "ulp_exponent x = q" "x = of_int m * pow2 q" "\<bar>x\<bar> < 2 ^ 1024"
  shows "round64 x = Finite x"
proof -
  have "pow2 q \<noteq> 0"
    by (simp add: pow2_def)
  then have "\<bar>x / pow2 q - of_int m\<bar> < 1 / 2"
    by (simp add: assms(2))
  from round64_near [OF assms(1) this] assms(2,3) show ?thesis
    by simp
qed

lemma round64_0: "round64 0 = Finite 0"
proof -
  have "ulp_exponent 0 = - 1074"
    by (rule ulp_exponent_subnormal) simp
  then show ?thesis
    by (rule round64_exact [where m = 0]) simp_all
qed

lemma round64_half: "round64 (1 / 2) = Finite (1 / 2)"
proof -
  have "ulp_exponent (1 / 2) = - 1 - 52"
    by (rule ulp_exponent_binade) (simp_all add: pow2_def)
  then have "ulp_exponent (1 / 2) = - 53"
    by simp
  then show ?thesis
    by (rule round64_exact [where m = "2 ^ 52"]) (simp_all add: pow2_def)
qed

lemma round64_minus_half: "round64 (- (1 / 2)) = Finite (- (1 / 2))"
proof -
  have "ulp_exponent (- (1 / 2)) = - 1 - 52"
    by (rule ulp_exponent_binade) (simp_all add: pow2_def)
  then have "ulp_exponent (- (1 / 2)) = - 53"
    by simp
  then show ?thesis
    by (rule round64_exact [where m = "- (2 ^ 52)"]) (simp_all add: pow2_def)
qed

lemma round64_1: "round64 1 = Finite 1"
proof -
  have "ulp_exponent 1 = 0 - 52"
    by (rule ulp_exponent_binade) (simp_all add: pow2_def)
  then have "ulp_exponent 1 = - 52"
    by simp
  then show ?thesis
    by (rule round64_exact [where m = "2 ^ 52"]) (simp_all add: pow2_def)
qed

lemma round64_2: "round64 2 = Finite 2"
proof -
  have "ulp_exponent 2 = 1 - 52"
    by (rule ulp_exponent_binade) (simp_all add: pow2_def)
  then have "ulp_exponent 2 = - 51"
    by simp
  then show ?thesis
    by (rule round64_exact [where m = "2 ^ 52"]) (simp_all add: pow2_def)
qed

lemma round64_5: "round64 5 = Finite 5"
proof -
  have "ulp_exponent 5 = 2 - 52"
    by (rule ulp_exponent_binade) (simp_all add: pow2_def)
  then have "ulp_exponent 5 = - 50"
    by simp
  then show ?thesis
    by (rule round64_exact [where m = "5 * 2 ^ 50"]) (simp_all add: pow2_def)
qed

lemma round64_10: "round64 10 = Finite 10"
proof -
  have "ulp_exponent 10 = 3 - 52"
    by (rule ulp_exponent_binade) (simp_all add: pow2_def)
  then have "ulp_exponent 10 = - 49"
    by simp
  then show ?thesis
    by (rule round64_exact [where m = "5 * 2 ^ 50"]) (simp_all add: pow2_def)
qed

text \<open>\<open>1 + 2^-70\<close> lies within \<open>2^-53\<close> of 1, half the spacing \<open>2^-52\<close> above 1.\<close>

lemma round64_one_plus: "round64 (1 + 1 / 2 ^ 70) = Finite 1"
proof -
  have "ulp_exponent (1 + 1 / 2 ^ 70) = 0 - 52"
    by (rule ulp_exponent_binade) (simp_all add: pow2_def)
  then have q: "ulp_exponent (1 + 1 / 2 ^ 70) = - 52"
    by simp
  have "round64 (1 + 1 / 2 ^ 70) = Finite (of_int (2 ^ 52) * pow2 (- 52))"
    by (rule round64_near [OF q]) (simp_all add: pow2_def)
  then show ?thesis
    by (simp add: pow2_def)
qed

lemma round64_tiny_minus_one: "round64 (1 / 2 ^ 70 + - 1) = Finite (- 1)"
proof -
  have "ulp_exponent (1 / 2 ^ 70 + - 1) = - 1 - 52"
    by (rule ulp_exponent_binade) (simp_all add: pow2_def)
  then have q: "ulp_exponent (1 / 2 ^ 70 + - 1) = - 53"
    by simp
  have "round64 (1 / 2 ^ 70 + - 1) = Finite (of_int (- (2 ^ 53)) * pow2 (- 53))"
    by (rule round64_near [OF q]) (simp_all add: pow2_def)
  then show ?thesis
    by (simp add: pow2_def)
qed

text \<open>Rounding is symmetric about zero.\<close>

lemma round_half_even_minus: "round_half_even (- x) = - round_half_even x"
proof (cases "x = of_int \<lfloor>x\<rfloor>")
  case True
  then obtain n where x: "x = of_int n"
    by blast
  have "- x = of_int (- n)"
    by (simp add: x)
  then have "\<lfloor>- x\<rfloor> = - n"
    by (simp only: floor_of_int)
  then show ?thesis
    by (simp add: round_half_even_def Let_def x)
next
  case False
  define n where "n = \<lfloor>x\<rfloor>"
  have "of_int n \<le> x"
    unfolding n_def by (rule of_int_floor_le)
  moreover have "x \<noteq> of_int n"
    using False unfolding n_def .
  ultimately have lo: "of_int n < x"
    by linarith
  have hi: "x < of_int n + 1"
    by (simp add: n_def)
  have fl: "\<lfloor>- x\<rfloor> = - n - 1"
    using lo hi by (intro floor_unique) simp_all
  have fx: "\<lfloor>x\<rfloor> = n"
    by (simp add: n_def)
  show ?thesis
    using lo hi by (auto simp: round_half_even_def Let_def fl fx)
qed

lemma ulp_exponent_minus: "ulp_exponent (- x) = ulp_exponent x"
  by (simp add: ulp_exponent_def)

lemma round64_minus: "round64 (- x) = fneg (round64 x)"
  by (auto simp: round64_def Let_def ulp_exponent_minus round_half_even_minus)

lemma is_double_minus: "is_double x \<Longrightarrow> is_double (- x)"
  by (simp add: is_double_def round64_minus)

lemma is_double_small:
  "is_double 0" "is_double 1" "is_double 2" "is_double 5" "is_double 10"
  by (simp_all add: is_double_def round64_0 round64_1 round64_2 round64_5 round64_10)

subsection \<open>The range of binary64 and the power operator\<close>

lemma round_half_even_tie:
  "round_half_even (of_int n + 1 / 2) = (if even n then n else n + 1)"
proof -
  have "\<lfloor>of_int n + 1 / 2 :: real\<rfloor> = n"
    by (intro floor_unique) simp_all
  then show ?thesis
    by (simp add: round_half_even_def Let_def)
qed

text \<open>The two bounds are where rounding starts to give an infinity and stops giving
  zero: \<open>2^1024 - 2^970\<close> lies halfway between the largest binary64 number and \<open>2^1024\<close>,
  \<open>2^-1075\<close> halfway between zero and the smallest one, and both ties go to the even
  neighbour.\<close>

lemma round64_overflow_bound: "round64 overflow_bound = PosInf"
proof -
  have lo: "(2::real) ^ 2045 \<le> \<bar>overflow_bound\<bar> * 2 ^ 1022"
    by (simp add: overflow_bound_def)
  have hi: "\<bar>overflow_bound\<bar> * 2 ^ 1022 < 2 ^ Suc 2045"
    by (simp add: overflow_bound_def)
  have "ulp_exponent overflow_bound = int 2045 - 1074"
    by (rule ulp_exponent_scaled [OF lo hi])
  then have q: "ulp_exponent overflow_bound = 971"
    by simp
  have z: "overflow_bound / pow2 971 = of_int (2 ^ 53 - 1) + 1 / 2"
    by (simp add: overflow_bound_def pow2_def)
  have "round_half_even (overflow_bound / pow2 971) = 2 ^ 53"
    unfolding z round_half_even_tie by simp
  then show ?thesis
    by (simp add: round64_def Let_def q pow2_def)
qed

lemma round64_underflow_bound: "round64 underflow_bound = Finite 0"
proof -
  have q: "ulp_exponent underflow_bound = - 1074"
    by (rule ulp_exponent_subnormal) (simp add: underflow_bound_def)
  have z: "underflow_bound / pow2 (- 1074) = 1 / 2"
    by (simp add: underflow_bound_def pow2_def)
  have "round_half_even (1 / 2) = 0"
    using round_half_even_tie [of 0] by simp
  then have "round_half_even (underflow_bound / pow2 (- 1074)) = 0"
    by (simp only: z)
  then show ?thesis
    by (simp add: round64_def Let_def q pow2_def)
qed

lemma overflow_bound_gt_1: "1 < overflow_bound"
  by (simp add: overflow_bound_def)

lemma underflow_bound_lt_1: "underflow_bound < 1"
  by (simp add: underflow_bound_def)

lemma underflow_bound_pos: "0 < underflow_bound"
  by (simp add: underflow_bound_def)

lemma underflow_below_overflow: "underflow_bound < overflow_bound"
  using overflow_bound_gt_1 underflow_bound_lt_1 by simp

lemma float_pow_in_range:
  assumes "underflow_bound < \<bar>x ^ n\<bar>" "\<bar>x ^ n\<bar> < overflow_bound"
  shows "float_pow x n = Inr (x ^ n)"
  using assms by (simp add: float_pow_def)

lemma float_pow_overflow:
  assumes "overflow_bound \<le> \<bar>x ^ n\<bar>"
  shows "float_pow x n = Inl OverflowError"
  using assms by (simp add: float_pow_def)

lemma float_pow_underflow:
  assumes "\<bar>x ^ n\<bar> \<le> underflow_bound"
  shows "float_pow x n = Inr 0"
  using assms underflow_below_overflow by (simp add: float_pow_def)

text \<open>When the cube of \<open>le\<close> is a nonzero finite double, so is its square: once
  \<open>le**3\<close> has gone through, \<open>le**2\<close> neither raises nor vanishes.\<close>

lemma square_in_range:
  assumes "underflow_bound < \<bar>le ^ 3\<bar>" "\<bar>le ^ 3\<bar> < overflow_bound"
  shows "underflow_bound < \<bar>le ^ 2\<bar>" "\<bar>le ^ 2\<bar> < overflow_bound"
proof -
  define a where "a = \<bar>le\<bar>"
  have a0: "0 \<le> a"
    by (simp add: a_def)
  have c: "\<bar>le ^ 3\<bar> = a ^ 3" and s: "\<bar>le ^ 2\<bar> = a ^ 2"
    unfolding a_def by (rule power_abs)+
  have c3: "a ^ 3 = a ^ 2 * a"
    by (simp add: power3_eq_cube power2_eq_square)
  show "underflow_bound < \<bar>le ^ 2\<bar>"
    unfolding s
  proof (cases "a \<le> 1")
    case True
    then have "a ^ 2 * a \<le> a ^ 2 * 1"
      by (intro mult_left_mono) simp_all
    then have "a ^ 3 \<le> a ^ 2"
      by (simp add: c3)
    with assms(1) show "underflow_bound < a ^ 2"
      unfolding c by linarith
  next
    case False
    then have "1 \<le> a ^ 2"
      by (simp add: one_le_power)
    with underflow_bound_lt_1 show "underflow_bound < a ^ 2"
      by linarith
  qed
  show "\<bar>le ^ 2\<bar> < overflow_bound"
    unfolding s
  proof (cases "a \<le> 1")
    case True
    with a0 have "a ^ 2 \<le> 1"
      by (simp add: power_le_one)
    with overflow_bound_gt_1 show "a ^ 2 < overflow_bound"
      by linarith
  next
    case False
    then have "a ^ 2 * 1 \<le> a ^ 2 * a"
      by (intro mult_left_mono) simp_all
    then have "a ^ 2 \<le> a ^ 3"
      by (simp add: c3)
    with assms(2) show "a ^ 2 < overflow_bound"
      unfolding c by linarith
  qed
qed

text \<open>The beam branch of \<open>get_Ke\<close>, case by case.\<close>

lemma get_Ke_EB_beam_eval:
  "get_Ke (init ''EB_beam'') Ae Ee le EIe =
     (if overflow_bound \<le> \<bar>le ^ 3\<bar> then Inl OverflowError
      else if \<bar>le ^ 3\<bar> \<le> underflow_bound then Inl ZeroDivisionError
      else Inr (Arr1 (map (\<lambda>x. EIe / le ^ 3 * x)
         [12, 6 * le, - 12, 6 * le,
          6 * le, 4 * le ^ 2, - 6 * le, 2 * le ^ 2,
          - 12, - 6 * le, 12, - 6 * le,
          6 * le, 2 * le ^ 2, - 6 * le, 4 * le ^ 2])))"
proof (cases "overflow_bound \<le> \<bar>le ^ 3\<bar>")
  case True
  then show ?thesis
    by (simp add: get_Ke_def float_pow_overflow)
next
  case no: False
  show ?thesis
  proof (cases "\<bar>le ^ 3\<bar> \<le> underflow_bound")
    case True
    then show ?thesis
      using no by (simp add: get_Ke_def float_pow_underflow truediv_def)
  next
    case False
    with no have r: "underflow_bound < \<bar>le ^ 3\<bar>" "\<bar>le ^ 3\<bar> < overflow_bound"
      by simp_all
    have nz: "le ^ 3 \<noteq> 0"
      using r(1) underflow_bound_pos by auto
    show ?thesis
      using no False nz
      by (simp add: get_Ke_def float_pow_in_range [OF r]
          float_pow_in_range [OF square_in_range [OF r]] truediv_def)
  qed
qed



section \<open>The claims of the specification\<close>

subsection \<open>DOF indices\<close>

text \<open>
  C1. With \<open>problem_type = 'Elasticity'\<close>, \<open>get_dof_index\<close> returns the list \<open>[e, e+1]\<close> for
  every element index \<open>e\<close>. With \<open>problem_type = 'EB_beam'\<close> and an index
  \<open>-2^62 \<le> e \<le> 2^62 - 2\<close> it returns a table of two rows of 16 integers: at position
  \<open>ii*4+jj\<close>, for all \<open>ii\<close> and \<open>jj\<close> below 4, row 0 holds \<open>2e+ii\<close> and row 1 holds \<open>2e+jj\<close>.
  For \<open>e = 0\<close>, row 0 is \<open>0,0,0,0,1,1,1,1,2,2,2,2,3,3,3,3\<close> and row 1 is \<open>0,1,2,3\<close> four
  times. For an index outside that range the 64-bit table cannot hold \<open>2e\<close> or \<open>2e+3\<close>:
  the store raises \<open>OverflowError\<close>.
\<close>

theorem get_dof_index_table:
  "get_dof_index (init ''Elasticity'') e = Inr (PyList [e, e + 1])
   \<and> (- (2 ^ 62) \<le> e \<and> e \<le> 2 ^ 62 - 2 \<longrightarrow>
        (\<exists>row0 row1.
           get_dof_index (init ''EB_beam'') e = Inr (IntArr2 [row0, row1])
           \<and> length row0 = 16 \<and> length row1 = 16
           \<and> (\<forall>ii<4. \<forall>jj<4. row0 ! (ii * 4 + jj) = 2 * e + int ii
                              \<and> row1 ! (ii * 4 + jj) = 2 * e + int jj)))
   \<and> (e < - (2 ^ 62) \<or> 2 ^ 62 - 2 < e \<longrightarrow>
        get_dof_index (init ''EB_beam'') e = Inl OverflowError)
   \<and> get_dof_index (init ''EB_beam'') 0 = Inr (IntArr2
        [[0, 0, 0, 0, 1, 1, 1, 1, 2, 2, 2, 2, 3, 3, 3, 3],
         [0, 1, 2, 3, 0, 1, 2, 3, 0, 1, 2, 3, 0, 1, 2, 3]])"
proof (intro conjI impI)
  show "get_dof_index (init ''Elasticity'') e = Inr (PyList [e, e + 1])"
    by (simp add: get_dof_index_def)
next
  assume "- (2 ^ 62) \<le> e \<and> e \<le> 2 ^ 62 - 2"
  then have r: "- (2 ^ 62) \<le> e" "e \<le> 2 ^ 62 - 2"
    by simp_all
  let ?row0 = "[e * 2, e * 2, e * 2, e * 2,
                e * 2 + 1, e * 2 + 1, e * 2 + 1, e * 2 + 1,
                e * 2 + 2, e * 2 + 2, e * 2 + 2, e * 2 + 2,
                e * 2 + 3, e * 2 + 3, e * 2 + 3, e * 2 + 3]"
  let ?row1 = "[e * 2, e * 2 + 1, e * 2 + 2, e * 2 + 3,
                e * 2, e * 2 + 1, e * 2 + 2, e * 2 + 3,
                e * 2, e * 2 + 1, e * 2 + 2, e * 2 + 3,
                e * 2, e * 2 + 1, e * 2 + 2, e * 2 + 3]"
  have "\<forall>ii<4. \<forall>jj<4. ?row0 ! (ii * 4 + jj) = 2 * e + int ii
                      \<and> ?row1 ! (ii * 4 + jj) = 2 * e + int jj"
  proof (intro allI impI)
    fix ii jj :: nat
    assume "ii < 4" "jj < 4"
    then show "?row0 ! (ii * 4 + jj) = 2 * e + int ii \<and> ?row1 ! (ii * 4 + jj) = 2 * e + int jj"
      using nat_less_4_cases [of ii] nat_less_4_cases [of jj] by auto
  qed
  then show "\<exists>row0 row1.
           get_dof_index (init ''EB_beam'') e = Inr (IntArr2 [row0, row1])
           \<and> length row0 = 16 \<and> length row1 = 16
           \<and> (\<forall>ii<4. \<forall>jj<4. row0 ! (ii * 4 + jj) = 2 * e + int ii
                              \<and> row1 ! (ii * 4 + jj) = 2 * e + int jj)"
    unfolding get_dof_index_EB_beam_in_range [OF r]
    by (intro exI [of _ ?row0] exI [of _ ?row1]) simp
next
  assume "e < - (2 ^ 62) \<or> 2 ^ 62 - 2 < e"
  then show "get_dof_index (init ''EB_beam'') e = Inl OverflowError"
    by (rule get_dof_index_EB_beam_out_of_range)
next
  show "get_dof_index (init ''EB_beam'') 0 = Inr (IntArr2
        [[0, 0, 0, 0, 1, 1, 1, 1, 2, 2, 2, 2, 3, 3, 3, 3],
         [0, 1, 2, 3, 0, 1, 2, 3, 0, 1, 2, 3, 0, 1, 2, 3]])"
    using get_dof_index_EB_beam_in_range [of 0] by simp
qed

text \<open>The theorem at element 3, inside the range, and at element \<open>2^62\<close>, outside it.\<close>

theorem get_dof_index_table_witness:
  "- (2 ^ 62) \<le> (3::int) \<and> (3::int) \<le> 2 ^ 62 - 2
   \<and> get_dof_index (init ''Elasticity'') 3 = Inr (PyList [3, 4])
   \<and> get_dof_index (init ''EB_beam'') 3 = Inr (IntArr2
        [[6, 6, 6, 6, 7, 7, 7, 7, 8, 8, 8, 8, 9, 9, 9, 9],
         [6, 7, 8, 9, 6, 7, 8, 9, 6, 7, 8, 9, 6, 7, 8, 9]])
   \<and> (2 ^ 62 - 2 < (2 ^ 62 :: int))
   \<and> get_dof_index (init ''EB_beam'') (2 ^ 62) = Inl OverflowError"
  using get_dof_index_table [of 3] get_dof_index_table [of "2 ^ 62"]
    get_dof_index_EB_beam_in_range [of 3]
  by simp

text \<open>As first stated, for every element index, the claim fails: for \<open>e = 2^62\<close> the
  first store, of \<open>2e = 2^63\<close>, is out of the range of the table's integers.\<close>

theorem get_dof_index_overflow:
  "get_dof_index (init ''EB_beam'') (2 ^ 62) = Inl OverflowError"
  by (simp add: get_dof_index_def zeros_2_16 fill_row0_def range_py_4 setitem_def int64_ok_def)

subsection \<open>Stiffness matrix of the beam element\<close>




text \<open>
  C3. With \<open>problem_type = 'EB_beam'\<close>, every \<open>EIe\<close> and every \<open>le\<close> whose cube \<open>le**3\<close> is a
  nonzero finite double (\<open>2^-1075 < \<bar>le^3\<bar> < 2^1024 - 2^970\<close>), \<open>get_Ke\<close> returns the 16
  numbers
  \<open>(EIe/le^3) * [12, 6le, -12, 6le, 6le, 4le^2, -6le, 2le^2, -12, -6le, 12, -6le, 6le,
  2le^2, -6le, 4le^2]\<close>, in that order. When \<open>le**3\<close> is \<open>0.0\<close>, for \<open>le = 0\<close> and for every
  \<open>le\<close> with \<open>\<bar>le^3\<bar> \<le> 2^-1075\<close>, the division \<open>EIe/(le**3)\<close> raises \<open>ZeroDivisionError\<close>;
  when \<open>le**3\<close> overflows, for \<open>\<bar>le^3\<bar> \<ge> 2^1024 - 2^970\<close>, the power raises
  \<open>OverflowError\<close>.
\<close>

theorem get_Ke_EB_beam_entries:
  "get_Ke (init ''EB_beam'') Ae Ee le EIe =
     (if overflow_bound \<le> \<bar>le ^ 3\<bar> then Inl OverflowError
      else if \<bar>le ^ 3\<bar> \<le> underflow_bound then Inl ZeroDivisionError
      else Inr (Arr1 (map (\<lambda>x. EIe / le ^ 3 * x)
         [12, 6 * le, - 12, 6 * le,
          6 * le, 4 * le ^ 2, - 6 * le, 2 * le ^ 2,
          - 12, - 6 * le, 12, - 6 * le,
          6 * le, 2 * le ^ 2, - 6 * le, 4 * le ^ 2])))"
  by (rule get_Ke_EB_beam_eval)

text \<open>As first stated, for every \<open>le\<close>, the claim fails: nothing is returned at \<open>le = 0\<close>,
  at \<open>le = 2^-400\<close> (the cube underflows to \<open>0.0\<close>) and at \<open>le = 2^400\<close> (the cube
  overflows).\<close>

theorem get_Ke_EB_beam_zero_length:
  "get_Ke (init ''EB_beam'') 0 0 0 1 = Inl ZeroDivisionError
   \<and> get_Ke (init ''EB_beam'') 0 0 (1 / 2 ^ 400) 1 = Inl ZeroDivisionError
   \<and> get_Ke (init ''EB_beam'') 0 0 (2 ^ 400) 1 = Inl OverflowError"
  by (simp add: get_Ke_EB_beam_eval underflow_bound_def overflow_bound_def power_divide)

text \<open>
  C10. With \<open>problem_type = 'EB_beam'\<close>, whatever sequence \<open>get_Ke\<close> returns has 16 entries
  and is symmetric as a 4x4 matrix: the entries at positions \<open>ii*4+jj\<close> and \<open>jj*4+ii\<close> are
  equal for all \<open>ii\<close> and \<open>jj\<close> below 4. A sequence is returned for every \<open>EIe\<close> and every
  \<open>le\<close> whose cube is a nonzero finite double (\<open>2^-1075 < \<bar>le^3\<bar> < 2^1024 - 2^970\<close>).
\<close>

theorem get_Ke_EB_beam_symmetric:
  "(\<forall>ks. get_Ke (init ''EB_beam'') Ae Ee le EIe = Inr (Arr1 ks) \<longrightarrow>
      length ks = 16 \<and> (\<forall>ii<4. \<forall>jj<4. ks ! (ii * 4 + jj) = ks ! (jj * 4 + ii)))
   \<and> (underflow_bound < \<bar>le ^ 3\<bar> \<and> \<bar>le ^ 3\<bar> < overflow_bound \<longrightarrow>
        (\<exists>ks. get_Ke (init ''EB_beam'') Ae Ee le EIe = Inr (Arr1 ks)))"
proof (intro conjI allI impI)
  fix ks
  assume r: "get_Ke (init ''EB_beam'') Ae Ee le EIe = Inr (Arr1 ks)"
  then have ks: "ks = map (\<lambda>x. EIe / le ^ 3 * x)
         [12, 6 * le, - 12, 6 * le,
          6 * le, 4 * le ^ 2, - 6 * le, 2 * le ^ 2,
          - 12, - 6 * le, 12, - 6 * le,
          6 * le, 2 * le ^ 2, - 6 * le, 4 * le ^ 2]"
    by (simp add: get_Ke_EB_beam_eval split: if_splits)
  show "length ks = 16"
    by (simp add: ks)
  fix ii jj :: nat
  assume "ii < 4" "jj < 4"
  then show "ks ! (ii * 4 + jj) = ks ! (jj * 4 + ii)"
    using nat_less_4_cases [of ii] nat_less_4_cases [of jj]
    by (auto simp: ks)
next
  assume "underflow_bound < \<bar>le ^ 3\<bar> \<and> \<bar>le ^ 3\<bar> < overflow_bound"
  then show "\<exists>ks. get_Ke (init ''EB_beam'') Ae Ee le EIe = Inr (Arr1 ks)"
    by (simp add: get_Ke_EB_beam_eval not_le)
qed

theorem get_Ke_EB_beam_symmetric_witness:
  "underflow_bound < \<bar>(2::real) ^ 3\<bar> \<and> \<bar>(2::real) ^ 3\<bar> < overflow_bound
   \<and> (1::nat) < 4 \<and> (3::nat) < 4
   \<and> (\<exists>ks. get_Ke (init ''EB_beam'') 0 0 2 1 = Inr (Arr1 ks)
          \<and> length ks = 16 \<and> ks ! (1 * 4 + 3) = ks ! (3 * 4 + 1) \<and> ks ! (1 * 4 + 3) = 1)"
proof -
  have h: "underflow_bound < \<bar>(2::real) ^ 3\<bar> \<and> \<bar>(2::real) ^ 3\<bar> < overflow_bound"
    by (simp add: underflow_bound_def overflow_bound_def)
  from get_Ke_EB_beam_symmetric [of 0 0 2 1] h
  obtain ks where r: "get_Ke (init ''EB_beam'') 0 0 2 1 = Inr (Arr1 ks)"
    by blast
  with get_Ke_EB_beam_symmetric [of 0 0 2 1]
  have len: "length ks = 16"
    and sym: "\<forall>ii<4. \<forall>jj<4. ks ! (ii * 4 + jj) = ks ! (jj * 4 + ii)"
    by blast+
  have "(1::nat) < 4" "(3::nat) < 4"
    by simp_all
  with sym have "ks ! (1 * 4 + 3) = ks ! (3 * 4 + 1)"
    by blast
  moreover from r have "ks ! (1 * 4 + 3) = 1"
    by (auto simp: get_Ke_EB_beam_eval underflow_bound_def overflow_bound_def split: if_splits)
  ultimately show ?thesis
    using r len h by simp
qed

subsection \<open>Stiffness matrix of the bar element\<close>

text \<open>
  C5. With \<open>problem_type = 'Elasticity'\<close>, \<open>get_Ke\<close> returns the 2x2 matrix
  \<open>(Ae*Ee/le) * [[1,-1],[-1,1]]\<close> for every \<open>Ae\<close>, \<open>Ee\<close> and every \<open>le\<close> other than zero;
  at \<open>le = 0\<close> the division \<open>Ae * Ee / le\<close> raises \<open>ZeroDivisionError\<close> and nothing is
  returned. With \<open>Ae = 2\<close>, \<open>Ee = 3\<close>, \<open>le = 4\<close> the result is \<open>[[1.5,-1.5],[-1.5,1.5]]\<close>.
\<close>

theorem get_Ke_Elasticity_matrix:
  "get_Ke (init ''Elasticity'') Ae Ee le EIe =
     (if le = 0 then Inl ZeroDivisionError
      else Inr (Arr2 [[Ae * Ee / le * 1, Ae * Ee / le * (- 1)],
                      [Ae * Ee / le * (- 1), Ae * Ee / le * 1]]))
   \<and> get_Ke (init ''Elasticity'') 2 3 4 EIe = Inr (Arr2 [[1.5, - 1.5], [- 1.5, 1.5]])"
  by (simp add: get_Ke_def truediv_def)

text \<open>As first stated, for every \<open>le\<close>, the claim fails at \<open>le = 0\<close>: the call raises and
  returns no matrix.\<close>

theorem get_Ke_Elasticity_zero_length:
  "get_Ke (init ''Elasticity'') 2 3 0 0 = Inl ZeroDivisionError"
  by (simp add: get_Ke_def truediv_def)

subsection \<open>Distributed loads\<close>

text \<open>
  C6. With \<open>problem_type = 'Elasticity'\<close>, \<open>get_fe_omega\<close> returns, for every \<open>le\<close>, \<open>b1\<close>
  and \<open>b2\<close>, the 2x1 array \<open>(le/6) * [[2,1],[1,2]] . [[b1],[b2]]\<close>, whose entries are
  \<open>le/6 * (2*b1 + b2)\<close> and \<open>le/6 * (b1 + 2*b2)\<close>; with \<open>le = 6\<close>, \<open>b1 = 1\<close>, \<open>b2 = 2\<close> it is
  \<open>[[4],[5]]\<close>.
\<close>

theorem get_fe_omega_Elasticity:
  "get_fe_omega (init ''Elasticity'') le b1 b2 fe =
     Inr (Arr2 (scale2 (le / 6) (dot2 [[2, 1], [1, 2]] [[b1], [b2]])))
   \<and> get_fe_omega (init ''Elasticity'') le b1 b2 fe =
     Inr (Arr2 [[le / 6 * (2 * b1 + b2)], [le / 6 * (b1 + 2 * b2)]])
   \<and> get_fe_omega (init ''Elasticity'') 6 1 2 fe = Inr (Arr2 [[4], [5]])"
  by (simp add: get_fe_omega_def dot2_2x2_2x1)

text \<open>
  C9. With \<open>problem_type = 'EB_beam'\<close>, every \<open>le\<close>, every load sequence \<open>f\<close> and every
  index \<open>node\<close> valid for \<open>f\<close> (\<open>-len(f) \<le> node < len(f)\<close>), \<open>get_dynamic_fe_omega\<close> returns
  what \<open>get_fe_omega\<close> returns for the scalar load \<open>f[node]\<close>: the four numbers
  \<open>(f[node]*le/2) * [1, le/6, 1, -le/6]\<close>. The arguments \<open>b1\<close> and \<open>b2\<close> of either call
  play no role.
\<close>

theorem get_dynamic_fe_omega_static:
  assumes "- int (length f) \<le> node" and "node < int (length f)"
  shows "\<exists>v. getitem f node = Inr v
     \<and> get_dynamic_fe_omega (init ''EB_beam'') le b1 b2 f node =
         get_fe_omega (init ''EB_beam'') le b1' b2' v
     \<and> get_fe_omega (init ''EB_beam'') le b1' b2' v =
         Inr (Arr1 [v * le / 2 * 1, v * le / 2 * (le / 6), v * le / 2 * 1, v * le / 2 * (- le / 6)])"
  using assms by (auto simp: getitem_def get_dynamic_fe_omega_def get_fe_omega_def)

theorem get_dynamic_fe_omega_static_witness:
  "- int (length [1, 2, 3 :: real]) \<le> - 1 \<and> - 1 < int (length [1, 2, 3 :: real])
   \<and> getitem [1, 2, 3 :: real] (- 1) = Inr 3
   \<and> get_dynamic_fe_omega (init ''EB_beam'') 2 0 0 [1, 2, 3] (- 1) = Inr (Arr1 [3, 1, 3, - 1])
   \<and> get_fe_omega (init ''EB_beam'') 2 0 0 3 = Inr (Arr1 [3, 1, 3, - 1])"
proof -
  have h: "- int (length [1, 2, 3 :: real]) \<le> - 1" "- 1 < int (length [1, 2, 3 :: real])"
    by simp_all
  have g: "getitem [1, 2, 3 :: real] (- 1) = Inr 3"
    by (simp add: getitem_def)
  from get_dynamic_fe_omega_static [OF h, of 2 0 0 0 0] g
  have "get_dynamic_fe_omega (init ''EB_beam'') 2 0 0 [1, 2, 3] (- 1) =
          get_fe_omega (init ''EB_beam'') 2 0 0 3
        \<and> get_fe_omega (init ''EB_beam'') 2 0 0 3 =
          Inr (Arr1 [3 * 2 / 2 * 1, 3 * 2 / 2 * (2 / 6), 3 * 2 / 2 * 1, 3 * 2 / 2 * (- 2 / 6)])"
    by auto
  then show ?thesis
    using h g by simp
qed

subsection \<open>Strain of the bar element\<close>

text \<open>
  C8. With \<open>problem_type = 'Elasticity'\<close>, every displacement pair \<open>[d1, d2]\<close> and every
  \<open>le\<close> other than zero, \<open>get_strain_e\<close> returns the number \<open>(1/le) * (-d1 + d2)\<close>; with
  \<open>le = 2\<close> and \<open>[1, 3]\<close> it returns 1. At \<open>le = 0\<close> the division \<open>1. / le\<close> raises
  \<open>ZeroDivisionError\<close>. With any other \<open>problem_type\<close> the call fails with the invalid
  element type exception.
\<close>

theorem get_strain_e_Elasticity:
  "get_strain_e (init ''Elasticity'') le [d1, d2] =
     (if le = 0 then Inl ZeroDivisionError else Inr (1 / le * (- d1 + d2)))
   \<and> get_strain_e (init ''Elasticity'') 2 [1, 3] = Inr 1
   \<and> (pt \<noteq> ''Elasticity'' \<longrightarrow> get_strain_e (init pt) le de = Inl InvalidElementType)"
  by (simp add: get_strain_e_def truediv_def dot1_pair)

theorem get_strain_e_Elasticity_witness:
  "''EB_beam'' \<noteq> ''Elasticity''
   \<and> get_strain_e (init ''EB_beam'') 2 [1, 3] = Inl InvalidElementType
   \<and> get_strain_e (init ''Elasticity'') 2 [1, 3] = Inr 1"
  using get_strain_e_Elasticity [of 2 1 3 "''EB_beam''" "[1, 3]"] by simp

text \<open>As first stated, for every \<open>le\<close>, the claim fails at \<open>le = 0\<close>: no strain is
  returned.\<close>

theorem get_strain_e_zero_length:
  "get_strain_e (init ''Elasticity'') 0 [1, 3] = Inl ZeroDivisionError"
  by (simp add: get_strain_e_def truediv_def)

subsection \<open>Failures\<close>

text \<open>
  C4. Every operation fails with the invalid element type exception exactly when the
  stored \<open>problem_type\<close> is outside the set that operation supports: \<open>get_Ke\<close>,
  \<open>get_fe_omega\<close> and \<open>get_dof_index\<close> for any tag other than \<open>'Elasticity'\<close> and
  \<open>'EB_beam'\<close>, \<open>get_dynamic_fe_omega\<close> for any tag other than \<open>'EB_beam'\<close>, \<open>get_strain_e\<close>
  for any tag other than \<open>'Elasticity'\<close>; \<open>get_gauss_quadrature_index\<close> never fails. Such a
  call computes nothing else. It is not the only error: with a supported tag the Python
  operations raise their own, in exactly these cases.
  \<^item> \<open>get_Ke\<close>, \<open>'Elasticity'\<close>: \<open>ZeroDivisionError\<close> at \<open>le = 0\<close>.
  \<^item> \<open>get_Ke\<close>, \<open>'EB_beam'\<close>: \<open>OverflowError\<close> when \<open>le**3\<close> overflows
    (\<open>\<bar>le^3\<bar> \<ge> 2^1024 - 2^970\<close>), \<open>ZeroDivisionError\<close> when \<open>le**3\<close> is \<open>0.0\<close>
    (\<open>\<bar>le^3\<bar> \<le> 2^-1075\<close>).
  \<^item> \<open>get_dof_index\<close>, \<open>'EB_beam'\<close>: \<open>OverflowError\<close> for an element index outside
    \<open>-2^62 \<le> e \<le> 2^62 - 2\<close>.
  \<^item> \<open>get_dynamic_fe_omega\<close>, \<open>'EB_beam'\<close>: \<open>IndexError\<close> for a \<open>node\<close> outside
    \<open>-len(fe) \<le> node < len(fe)\<close>.
  \<^item> \<open>get_strain_e\<close>, \<open>'Elasticity'\<close>: \<open>ZeroDivisionError\<close> at \<open>le = 0\<close>, and otherwise
    \<open>ValueError\<close> for a displacement array whose length is not 2.
  \<^item> \<open>get_fe_omega\<close>: none.
\<close>

theorem invalid_element_type:
  "(get_Ke (init pt) Ae Ee le EIe = Inl InvalidElementType
      \<longleftrightarrow> pt \<notin> {''Elasticity'', ''EB_beam''})
   \<and> (get_fe_omega (init pt) le b1 b2 fe = Inl InvalidElementType
      \<longleftrightarrow> pt \<notin> {''Elasticity'', ''EB_beam''})
   \<and> (get_dof_index (init pt) e = Inl InvalidElementType
      \<longleftrightarrow> pt \<notin> {''Elasticity'', ''EB_beam''})
   \<and> (get_dynamic_fe_omega (init pt) le b1 b2 f node = Inl InvalidElementType
      \<longleftrightarrow> pt \<noteq> ''EB_beam'')
   \<and> (get_strain_e (init pt) le de = Inl InvalidElementType
      \<longleftrightarrow> pt \<noteq> ''Elasticity'')
   \<and> (\<exists>v. get_gauss_quadrature_index (init pt) x a b = Inr v)
   \<and> (get_Ke (init pt) Ae Ee le EIe = Inl err \<longleftrightarrow>
        pt \<notin> {''Elasticity'', ''EB_beam''} \<and> err = InvalidElementType
        \<or> pt = ''Elasticity'' \<and> le = 0 \<and> err = ZeroDivisionError
        \<or> pt = ''EB_beam'' \<and> overflow_bound \<le> \<bar>le ^ 3\<bar> \<and> err = OverflowError
        \<or> pt = ''EB_beam'' \<and> \<bar>le ^ 3\<bar> \<le> underflow_bound \<and> err = ZeroDivisionError)
   \<and> (get_fe_omega (init pt) le b1 b2 fe = Inl err \<longleftrightarrow>
        pt \<notin> {''Elasticity'', ''EB_beam''} \<and> err = InvalidElementType)
   \<and> (get_dof_index (init pt) e = Inl err \<longleftrightarrow>
        pt \<notin> {''Elasticity'', ''EB_beam''} \<and> err = InvalidElementType
        \<or> pt = ''EB_beam'' \<and> (e < - (2 ^ 62) \<or> 2 ^ 62 - 2 < e) \<and> err = OverflowError)
   \<and> (get_dynamic_fe_omega (init pt) le b1 b2 f node = Inl err \<longleftrightarrow>
        pt \<noteq> ''EB_beam'' \<and> err = InvalidElementType
        \<or> pt = ''EB_beam'' \<and> (node < - int (length f) \<or> int (length f) \<le> node)
          \<and> err = IndexError)
   \<and> (get_strain_e (init pt) le de = Inl err \<longleftrightarrow>
        pt \<noteq> ''Elasticity'' \<and> err = InvalidElementType
        \<or> pt = ''Elasticity'' \<and> le = 0 \<and> err = ZeroDivisionError
        \<or> pt = ''Elasticity'' \<and> le \<noteq> 0 \<and> length de \<noteq> 2 \<and> err = ValueError)"
proof -
  have dof_ok: "\<not> (e < - (2 ^ 62) \<or> 2 ^ 62 - 2 < e) \<Longrightarrow>
      \<exists>t. get_dof_index (init ''EB_beam'') e = Inr t"
    using get_dof_index_EB_beam_in_range [of e] by simp
  have e1: "get_Ke (init pt) Ae Ee le EIe = Inl err \<longleftrightarrow>
        pt \<notin> {''Elasticity'', ''EB_beam''} \<and> err = InvalidElementType
        \<or> pt = ''Elasticity'' \<and> le = 0 \<and> err = ZeroDivisionError
        \<or> pt = ''EB_beam'' \<and> overflow_bound \<le> \<bar>le ^ 3\<bar> \<and> err = OverflowError
        \<or> pt = ''EB_beam'' \<and> \<bar>le ^ 3\<bar> \<le> underflow_bound \<and> err = ZeroDivisionError" for err
  proof (cases "pt = ''EB_beam''")
    case True
    then show ?thesis
      using underflow_below_overflow
      by (auto simp: get_Ke_EB_beam_eval split: if_splits)
  next
    case False
    then show ?thesis
      by (auto simp: get_Ke_def truediv_def split: if_splits)
  qed
  have e2: "get_fe_omega (init pt) le b1 b2 fe = Inl err \<longleftrightarrow>
        pt \<notin> {''Elasticity'', ''EB_beam''} \<and> err = InvalidElementType" for err
    by (auto simp: get_fe_omega_def split: if_splits)
  have e3: "get_dof_index (init pt) e = Inl err \<longleftrightarrow>
        pt \<notin> {''Elasticity'', ''EB_beam''} \<and> err = InvalidElementType
        \<or> pt = ''EB_beam'' \<and> (e < - (2 ^ 62) \<or> 2 ^ 62 - 2 < e) \<and> err = OverflowError" for err
  proof (cases "pt = ''EB_beam''")
    case True
    show ?thesis
    proof (cases "e < - (2 ^ 62) \<or> 2 ^ 62 - 2 < e")
      case out: True
      then show ?thesis
        using True by (auto simp: get_dof_index_EB_beam_out_of_range)
    next
      case False
      with dof_ok obtain t where "get_dof_index (init ''EB_beam'') e = Inr t"
        by blast
      then show ?thesis
        using True False by simp
    qed
  next
    case False
    then show ?thesis
      by (auto simp: get_dof_index_def split: if_splits)
  qed
  have e4: "get_dynamic_fe_omega (init pt) le b1 b2 f node = Inl err \<longleftrightarrow>
        pt \<noteq> ''EB_beam'' \<and> err = InvalidElementType
        \<or> pt = ''EB_beam'' \<and> (node < - int (length f) \<or> int (length f) \<le> node)
          \<and> err = IndexError" for err
    by (auto simp: get_dynamic_fe_omega_def getitem_def split: if_splits)
  have e5: "get_strain_e (init pt) le de = Inl err \<longleftrightarrow>
        pt \<noteq> ''Elasticity'' \<and> err = InvalidElementType
        \<or> pt = ''Elasticity'' \<and> le = 0 \<and> err = ZeroDivisionError
        \<or> pt = ''Elasticity'' \<and> le \<noteq> 0 \<and> length de \<noteq> 2 \<and> err = ValueError" for err
    by (auto simp: get_strain_e_def truediv_def dot1_def split: if_splits)
  have c1: "get_Ke (init pt) Ae Ee le EIe = Inl InvalidElementType
      \<longleftrightarrow> pt \<notin> {''Elasticity'', ''EB_beam''}"
    using e1 [of InvalidElementType] by simp
  have c2: "get_fe_omega (init pt) le b1 b2 fe = Inl InvalidElementType
      \<longleftrightarrow> pt \<notin> {''Elasticity'', ''EB_beam''}"
    using e2 [of InvalidElementType] by simp
  have c3: "get_dof_index (init pt) e = Inl InvalidElementType
      \<longleftrightarrow> pt \<notin> {''Elasticity'', ''EB_beam''}"
    using e3 [of InvalidElementType] by simp
  have c4: "get_dynamic_fe_omega (init pt) le b1 b2 f node = Inl InvalidElementType
      \<longleftrightarrow> pt \<noteq> ''EB_beam''"
    using e4 [of InvalidElementType] by simp
  have c5: "get_strain_e (init pt) le de = Inl InvalidElementType \<longleftrightarrow> pt \<noteq> ''Elasticity''"
    using e5 [of InvalidElementType] by simp
  have c6: "\<exists>v. get_gauss_quadrature_index (init pt) x a b = Inr v"
    by (simp add: get_gauss_quadrature_index_def)
  from c1 c2 c3 c4 c5 c6 e1 e2 e3 e4 e5 show ?thesis
    by (intro conjI)
qed

text \<open>The theorem at the unsupported tag \<open>'Plate'\<close>, where all five dispatching
  operations fail with the invalid element type exception, and at supported tags, where
  each of the other errors is raised.\<close>

theorem invalid_element_type_witness:
  "''Plate'' \<notin> {''Elasticity'', ''EB_beam''}
   \<and> get_Ke (init ''Plate'') 2 3 4 1 = Inl InvalidElementType
   \<and> get_fe_omega (init ''Plate'') 6 1 2 1 = Inl InvalidElementType
   \<and> get_dof_index (init ''Plate'') 3 = Inl InvalidElementType
   \<and> get_dynamic_fe_omega (init ''Plate'') 2 0 0 [1, 2, 3] 0 = Inl InvalidElementType
   \<and> get_strain_e (init ''Plate'') 2 [1, 3] = Inl InvalidElementType
   \<and> get_dynamic_fe_omega (init ''Elasticity'') 2 0 0 [1, 2, 3] 0 = Inl InvalidElementType
   \<and> get_strain_e (init ''EB_beam'') 2 [1, 3] = Inl InvalidElementType
   \<and> get_Ke (init ''Elasticity'') 2 3 0 1 = Inl ZeroDivisionError
   \<and> get_Ke (init ''EB_beam'') 0 0 (2 ^ 400) 1 = Inl OverflowError
   \<and> get_Ke (init ''EB_beam'') 0 0 (1 / 2 ^ 400) 1 = Inl ZeroDivisionError
   \<and> get_dof_index (init ''EB_beam'') (2 ^ 62) = Inl OverflowError
   \<and> get_dynamic_fe_omega (init ''EB_beam'') 2 0 0 [1, 2, 3] 3 = Inl IndexError
   \<and> get_dynamic_fe_omega (init ''EB_beam'') 2 0 0 [1, 2, 3] (- 4) = Inl IndexError
   \<and> get_strain_e (init ''Elasticity'') 0 [1, 3] = Inl ZeroDivisionError
   \<and> get_strain_e (init ''Elasticity'') 2 [1, 3, 5] = Inl ValueError"
proof -
  have p: "''Plate'' \<notin> {''Elasticity'', ''EB_beam''}"
    by simp
  have big: "overflow_bound \<le> \<bar>((2::real) ^ 400) ^ 3\<bar>"
    by (simp add: overflow_bound_def)
  have tiny: "\<bar>(1 / 2 ^ 400 :: real) ^ 3\<bar> \<le> underflow_bound"
    by (simp add: underflow_bound_def power_divide)
  note t = invalid_element_type
  have "get_Ke (init ''Plate'') 2 3 4 1 = Inl InvalidElementType"
    and "get_fe_omega (init ''Plate'') 6 1 2 1 = Inl InvalidElementType"
    and "get_dof_index (init ''Plate'') 3 = Inl InvalidElementType"
    and "get_dynamic_fe_omega (init ''Plate'') 2 0 0 [1, 2, 3] 0 = Inl InvalidElementType"
    and "get_strain_e (init ''Plate'') 2 [1, 3] = Inl InvalidElementType"
    and "get_dynamic_fe_omega (init ''Elasticity'') 2 0 0 [1, 2, 3] 0 = Inl InvalidElementType"
    and "get_strain_e (init ''EB_beam'') 2 [1, 3] = Inl InvalidElementType"
    using t [where pt = "''Plate''"] t [where pt = "''Elasticity''"] t [where pt = "''EB_beam''"]
    by simp_all
  moreover have "get_Ke (init ''Elasticity'') 2 3 0 1 = Inl ZeroDivisionError"
    using t [where pt = "''Elasticity''" and le = 0 and err = ZeroDivisionError] by simp
  moreover have "get_Ke (init ''EB_beam'') 0 0 (2 ^ 400) 1 = Inl OverflowError"
    using t [where pt = "''EB_beam''" and le = "2 ^ 400" and err = OverflowError] big by simp
  moreover have "get_Ke (init ''EB_beam'') 0 0 (1 / 2 ^ 400) 1 = Inl ZeroDivisionError"
    using t [where pt = "''EB_beam''" and le = "1 / 2 ^ 400" and err = ZeroDivisionError] tiny
    by simp
  moreover have "get_dof_index (init ''EB_beam'') (2 ^ 62) = Inl OverflowError"
    using t [where pt = "''EB_beam''" and e = "2 ^ 62" and err = OverflowError] by simp
  moreover have "get_dynamic_fe_omega (init ''EB_beam'') 2 0 0 [1, 2, 3] 3 = Inl IndexError"
    using t [where pt = "''EB_beam''" and f = "[1, 2, 3]" and node = 3 and err = IndexError]
    by simp
  moreover have "get_dynamic_fe_omega (init ''EB_beam'') 2 0 0 [1, 2, 3] (- 4) = Inl IndexError"
    using t [where pt = "''EB_beam''" and f = "[1, 2, 3]" and node = "- 4" and err = IndexError]
    by simp
  moreover have "get_strain_e (init ''Elasticity'') 0 [1, 3] = Inl ZeroDivisionError"
    using t [where pt = "''Elasticity''" and le = 0 and err = ZeroDivisionError] by simp
  moreover have "get_strain_e (init ''Elasticity'') 2 [1, 3, 5] = Inl ValueError"
    using t [where pt = "''Elasticity''" and le = 2 and de = "[1, 3, 5]" and err = ValueError]
    by simp
  ultimately show ?thesis
    using p by (intro conjI)
qed

text \<open>As first stated, with no other error kind raised, the claim fails: the dynamic
  load on an empty load sequence raises \<open>IndexError\<close>, with the supported tag.\<close>

theorem get_dynamic_fe_omega_index_error:
  "get_dynamic_fe_omega (init ''EB_beam'') 1 0 0 [] 0 = Inl IndexError
   \<and> IndexError \<noteq> InvalidElementType"
  by (simp add: get_dynamic_fe_omega_def getitem_def)

subsection \<open>Linear interpolation\<close>

text \<open>The two boundary values, when no operation on the way rounds: the sum \<open>a + b\<close>,
  the difference \<open>b - a\<close> and the halves of both are doubles, as \<open>a\<close> and \<open>b\<close> are.\<close>

lemma get_gauss_quadrature_index_boundary:
  assumes "is_double a" "is_double b" "is_double (a + b)" "is_double (b - a)"
    and "is_double ((a + b) / 2)" "is_double ((b - a) / 2)"
  shows "get_gauss_quadrature_index (init pt) (Finite (- 1)) (Finite a) (Finite b) =
      Inr (Finite a)"
    and "get_gauss_quadrature_index (init pt) (Finite 1) (Finite a) (Finite b) =
      Inr (Finite b)"
proof -
  have s1: "fadd (Finite a) (Finite b) = Finite (a + b)"
    using assms(3) by (simp add: is_double_def)
  have "0.5 * (a + b) = (a + b) / 2"
    by simp
  then have s2: "fmul (Finite 0.5) (Finite (a + b)) = Finite ((a + b) / 2)"
    using assms(5) by (simp only: fmul.simps is_double_def)
  have "b + - a = b - a"
    by simp
  then have s3: "fsub (Finite b) (Finite a) = Finite (b - a)"
    using assms(4) by (simp only: fsub_def fneg.simps fadd.simps is_double_def)
  have "0.5 * (b - a) = (b - a) / 2"
    by simp
  then have s4: "fmul (Finite 0.5) (Finite (b - a)) = Finite ((b - a) / 2)"
    using assms(6) by (simp only: fmul.simps is_double_def)
  have "(b - a) / 2 * 1 = (b - a) / 2"
    by simp
  then have s5: "fmul (Finite ((b - a) / 2)) (Finite 1) = Finite ((b - a) / 2)"
    using assms(6) by (simp only: fmul.simps is_double_def)
  have "(b - a) / 2 * - 1 = - ((b - a) / 2)"
    by simp
  then have s6: "fmul (Finite ((b - a) / 2)) (Finite (- 1)) = Finite (- ((b - a) / 2))"
    using is_double_minus [OF assms(6)] by (simp only: fmul.simps is_double_def)
  have "(a + b) / 2 + (b - a) / 2 = b"
    by (simp add: add_divide_distrib diff_divide_distrib)
  then have s7: "fadd (Finite ((a + b) / 2)) (Finite ((b - a) / 2)) = Finite b"
    using assms(2) by (simp only: fadd.simps is_double_def)
  have "(a + b) / 2 + - ((b - a) / 2) = a"
    by (simp add: add_divide_distrib diff_divide_distrib)
  then have s8: "fadd (Finite ((a + b) / 2)) (Finite (- ((b - a) / 2))) = Finite a"
    using assms(1) by (simp only: fadd.simps is_double_def)
  show "get_gauss_quadrature_index (init pt) (Finite (- 1)) (Finite a) (Finite b) =
      Inr (Finite a)"
    by (simp only: get_gauss_quadrature_index_def s1 s2 s3 s4 s6 s8)
  show "get_gauss_quadrature_index (init pt) (Finite 1) (Finite a) (Finite b) =
      Inr (Finite b)"
    by (simp only: get_gauss_quadrature_index_def s1 s2 s3 s4 s5 s7)
qed

text \<open>
  C7. Whatever the stored \<open>problem_type\<close>, \<open>get_gauss_quadrature_index\<close> never fails and
  returns \<open>0.5*(a+b) + 0.5*(b-a)*x\<close> as Python evaluates it on floats, each operation
  rounded to binary64. It maps \<open>x = -1\<close> to \<open>a\<close> and \<open>x = 1\<close> to \<open>b\<close> exactly whenever no
  operation on the way rounds or overflows, that is whenever the sum \<open>a + b\<close>, the
  difference \<open>b - a\<close> and the halves of both are doubles; it does not do so for all \<open>a\<close>
  and \<open>b\<close>. With \<open>a = -1\<close>, \<open>b = 1\<close>, \<open>x = 0\<close> it returns 0, with \<open>a = 0\<close>, \<open>b = 10\<close>, \<open>x = 1\<close> it
  returns 10.
\<close>

theorem get_gauss_quadrature_index_affine:
  "(\<exists>v. get_gauss_quadrature_index (init pt) x a b = Inr v)
   \<and> get_gauss_quadrature_index (init pt) x a b =
       Inr (fadd (fmul (Finite 0.5) (fadd a b)) (fmul (fmul (Finite 0.5) (fsub b a)) x))
   \<and> (is_double ra \<and> is_double rb \<and> is_double (ra + rb) \<and> is_double (rb - ra)
        \<and> is_double ((ra + rb) / 2) \<and> is_double ((rb - ra) / 2) \<longrightarrow>
        get_gauss_quadrature_index (init pt) (Finite (- 1)) (Finite ra) (Finite rb) =
          Inr (Finite ra)
        \<and> get_gauss_quadrature_index (init pt) (Finite 1) (Finite ra) (Finite rb) =
          Inr (Finite rb))
   \<and> get_gauss_quadrature_index (init pt) (Finite 0) (Finite (- 1)) (Finite 1) =
       Inr (Finite 0)
   \<and> get_gauss_quadrature_index (init pt) (Finite 1) (Finite 0) (Finite 10) =
       Inr (Finite 10)"
proof (intro conjI impI)
  show "\<exists>v. get_gauss_quadrature_index (init pt) x a b = Inr v"
    by (simp add: get_gauss_quadrature_index_def)
  show "get_gauss_quadrature_index (init pt) x a b =
       Inr (fadd (fmul (Finite 0.5) (fadd a b)) (fmul (fmul (Finite 0.5) (fsub b a)) x))"
    by (simp add: get_gauss_quadrature_index_def)
  show "get_gauss_quadrature_index (init pt) (Finite 0) (Finite (- 1)) (Finite 1) =
       Inr (Finite 0)"
    by (simp add: get_gauss_quadrature_index_def fsub_def round64_0 round64_1 round64_2)
  show "get_gauss_quadrature_index (init pt) (Finite 1) (Finite 0) (Finite 10) =
       Inr (Finite 10)"
    by (simp add: get_gauss_quadrature_index_def fsub_def round64_5 round64_10)
next
  assume h: "is_double ra \<and> is_double rb \<and> is_double (ra + rb) \<and> is_double (rb - ra)
        \<and> is_double ((ra + rb) / 2) \<and> is_double ((rb - ra) / 2)"
  then show "get_gauss_quadrature_index (init pt) (Finite (- 1)) (Finite ra) (Finite rb) =
      Inr (Finite ra)"
    by (intro get_gauss_quadrature_index_boundary) simp_all
  from h show "get_gauss_quadrature_index (init pt) (Finite 1) (Finite ra) (Finite rb) =
      Inr (Finite rb)"
    by (intro get_gauss_quadrature_index_boundary) simp_all
qed

text \<open>The theorem at \<open>a = 0\<close>, \<open>b = 10\<close>: the sum and the difference are 10, their halves
  5, all doubles, and the two boundary values are \<open>a\<close> and \<open>b\<close>.\<close>

theorem get_gauss_quadrature_index_affine_witness:
  "is_double 0 \<and> is_double 10 \<and> is_double (0 + 10) \<and> is_double (10 - 0)
   \<and> is_double ((0 + 10) / 2) \<and> is_double ((10 - 0) / 2)
   \<and> get_gauss_quadrature_index (init ''Elasticity'') (Finite (- 1)) (Finite 0) (Finite 10) =
       Inr (Finite 0)
   \<and> get_gauss_quadrature_index (init ''Elasticity'') (Finite 1) (Finite 0) (Finite 10) =
       Inr (Finite 10)"
proof -
  have h: "is_double 0 \<and> is_double 10 \<and> is_double (0 + 10) \<and> is_double (10 - 0)
      \<and> is_double ((0 + 10) / 2) \<and> is_double ((10 - 0) / 2)"
    by (simp add: is_double_small)
  with get_gauss_quadrature_index_affine [where pt = "''Elasticity''" and ra = 0 and rb = 10]
  show ?thesis
    by blast
qed

text \<open>As first stated, with the boundary values exact for all \<open>a\<close> and \<open>b\<close>, the claim
  fails: for \<open>a = 1\<close>, \<open>b = 2^-70\<close> and \<open>x = 1\<close> the sum \<open>a + b\<close> rounds to 1 and the
  difference \<open>b - a\<close> to \<open>-1\<close>, so the result is \<open>0.5 + (-0.5) = 0\<close> and not \<open>b\<close>.\<close>

theorem get_gauss_quadrature_index_inexact:
  "get_gauss_quadrature_index (init ''Elasticity'') (Finite 1) (Finite 1) (Finite (1 / 2 ^ 70)) =
     Inr (Finite 0)
   \<and> Finite 0 \<noteq> Finite (1 / 2 ^ 70)"
proof -
  have s1: "fadd (Finite 1) (Finite (1 / 2 ^ 70)) = Finite 1"
    by (simp only: fadd.simps round64_one_plus)
  have s2: "fmul (Finite 0.5) (Finite 1) = Finite (1 / 2)"
    by (simp add: round64_half)
  have s3: "fsub (Finite (1 / 2 ^ 70)) (Finite 1) = Finite (- 1)"
    by (simp only: fsub_def fneg.simps fadd.simps round64_tiny_minus_one)
  have s4: "fmul (Finite 0.5) (Finite (- 1)) = Finite (- (1 / 2))"
    by (simp add: round64_minus_half)
  have s5: "fmul (Finite (- (1 / 2))) (Finite 1) = Finite (- (1 / 2))"
    by (simp add: round64_minus_half)
  have s6: "fadd (Finite (1 / 2)) (Finite (- (1 / 2))) = Finite 0"
    by (simp add: round64_0)
  have "get_gauss_quadrature_index (init ''Elasticity'')
          (Finite 1) (Finite 1) (Finite (1 / 2 ^ 70)) = Inr (Finite 0)"
    by (simp only: get_gauss_quadrature_index_def s1 s2 s3 s4 s5 s6)
  then show ?thesis
    by simp
qed

end
